theory Spec2Isabelle
  imports Main "HOL-Library.AList" "HOL-Library.Multiset"
begin

section \<open>Identifiers, rows and configuration\<close>

text \<open>
  The controller under verification is \<^verbatim>\<open>DetailedTvlController\<close>. Its identifiers are
  branded strings and numbers; \<^verbatim>\<open>ProjectId\<close> has three distinguished members for the
  cross-project rollups (\<^verbatim>\<open>ProjectId.ALL\<close>, \<^verbatim>\<open>ProjectId.BRIDGES\<close>,
  \<^verbatim>\<open>ProjectId.LAYER2S\<close>) whose string values are not part of the source, so they
  are constructors of their own. A project list may still contain them.
  \<^verbatim>\<open>UnixTime\<close> is an object wrapping whole seconds: it is never falsy, so the
  source's test \<^verbatim>\<open>!latestTimestamp\<close> is exactly the test for \<^verbatim>\<open>undefined\<close>.
\<close>

datatype ProjectId = ProjectId string | ProjectId_ALL | ProjectId_BRIDGES | ProjectId_LAYER2S

type_synonym AssetId = string
type_synonym ChainId = int
type_synonym UnixTime = int
type_synonym Hash256 = string

datatype ReportType = TVL | CBV | EBV | NMV

record ReportProject =
  projectId :: ProjectId

text \<open>The source's \<^verbatim>\<open>Token\<close> field \<^verbatim>\<open>id\<close> is named \<open>id_t\<close> here.\<close>

record Token =
  id_t :: AssetId
  symbol :: string
  decimals :: nat

record Report =
  reportProjectId :: ProjectId
  reportChainId :: ChainId
  reportAssetId :: AssetId
  reportValueType :: ReportType
  reportTimestamp :: UnixTime
  valueAsset :: int
  valueUsd :: int

text \<open>
  An aggregated row. The asset-denominated amount is carried next to the usd value: the
  gap filler zeroes both in its placeholders.
\<close>

record AggregatedReport =
  aggProjectId :: ProjectId
  aggValueType :: ReportType
  aggTimestamp :: UnixTime
  aggValueAsset :: int
  aggValueUsd :: int

record DetailedTvlControllerOptions =
  errorOnUnsyncedDetailedTvl :: bool

section \<open>The storage collaborators\<close>

text \<open>
  The five repositories are read-only collaborators. Each query is a function of its
  arguments (the database does not change during a request), and every call the
  controller issues is recorded, in the order it is issued, as a \<open>StorageCall\<close>.
  The calls inside one \<^verbatim>\<open>Promise.all([...])\<close> are issued in the order of the array
  literal. A rejected query makes the whole operation reject; that path is not modelled.
\<close>

typedecl BalanceRecord
typedecl PriceRecord

record Counts =
  matching :: nat
  different :: nat

record Storage =
  findCountsForHash :: "Hash256 \<Rightarrow> Counts"
  findLatestTimestamp :: "UnixTime option"
  getHourlyWithAnyType :: "UnixTime \<Rightarrow> AggregatedReport list"
  getSixHourlyWithAnyType :: "UnixTime \<Rightarrow> AggregatedReport list"
  getDailyWithAnyType :: "AggregatedReport list"
  reportGetByTimestamp :: "UnixTime \<Rightarrow> Report list"
  getHourlyForDetailed ::
    "ProjectId \<Rightarrow> ChainId \<Rightarrow> AssetId \<Rightarrow> ReportType \<Rightarrow> UnixTime \<Rightarrow> Report list"
  getSixHourlyForDetailed ::
    "ProjectId \<Rightarrow> ChainId \<Rightarrow> AssetId \<Rightarrow> ReportType \<Rightarrow> UnixTime \<Rightarrow> Report list"
  getDailyForDetailed ::
    "ProjectId \<Rightarrow> ChainId \<Rightarrow> AssetId \<Rightarrow> ReportType \<Rightarrow> Report list"
  balanceGetByTimestamp :: "UnixTime \<Rightarrow> BalanceRecord list"
  priceGetByTimestamp :: "UnixTime \<Rightarrow> PriceRecord list"

datatype StorageCall =
    FindCountsForHash Hash256
  | FindLatestTimestamp
  | GetHourlyWithAnyType UnixTime
  | GetSixHourlyWithAnyType UnixTime
  | GetDailyWithAnyType
  | ReportGetByTimestamp UnixTime
  | GetHourlyForDetailed ProjectId ChainId AssetId ReportType UnixTime
  | GetSixHourlyForDetailed ProjectId ChainId AssetId ReportType UnixTime
  | GetDailyForDetailed ProjectId ChainId AssetId ReportType
  | BalanceGetByTimestamp UnixTime
  | PriceGetByTimestamp UnixTime

section \<open>Results\<close>

datatype ErrorCode = INVALID_PROJECT_OR_ASSET | NO_DATA | DATA_NOT_FULLY_SYNCED

datatype 'a Result = Success 'a | Error ErrorCode

record DetailedTvlController =
  storage :: Storage
  projects :: "ReportProject list"
  tokens :: "Token list"
  aggregatedConfigHash :: Hash256
  options :: DetailedTvlControllerOptions

section \<open>getDataTimings\<close>

record DataTimings =
  syncedReportsAmount :: nat
  unsyncedReportsAmount :: nat
  isSynced :: bool
  latestTimestamp :: "UnixTime option"

definition getDataTimings :: "DetailedTvlController \<Rightarrow> DataTimings \<times> StorageCall list" where
  "getDataTimings c =
     (let counts = findCountsForHash (storage c) (aggregatedConfigHash c);
          latest = findLatestTimestamp (storage c);
          synced = (different counts = 0)
      in (\<lparr>syncedReportsAmount = matching counts,
           unsyncedReportsAmount = different counts,
           isSynced = synced,
           latestTimestamp = latest\<rparr>,
          [FindCountsForHash (aggregatedConfigHash c), FindLatestTimestamp]))"

section \<open>Imported helpers that the source does not define\<close>

text \<open>
  The controller imports its time-range constants and several chart and breakdown
  helpers from modules whose text is not available. Those that no property below
  depends on are parameters, collected in \<open>Imports\<close>: the lower bounds of the hourly
  and six-hourly windows, the lower bound of the daily series, the three step sizes,
  the per-asset filler, the chart-row conversion and the two breakdown computations
  (\<^verbatim>\<open>getCanonicalAssetsBreakdown\<close> without its logger). The rows of a per-asset chart
  are produced by the absent conversion and stay abstract. The string method
  \<^verbatim>\<open>String.prototype.toLowerCase\<close> is a parameter as well: it lowers every cased
  letter of Unicode, a mapping that is not written out here, and only the label of the
  per-asset chart goes through it.
\<close>

typedecl AssetChartRow

record 'a ByResolution =
  hourly :: 'a
  sixHourly :: 'a
  daily :: 'a

record 'r FilledReports =
  filledHourlyReports :: "'r list"
  filledSixHourlyReports :: "'r list"
  filledDailyReports :: "'r list"

record 'row TvlApiChart =
  types :: "string list"
  data :: "'row list"

type_synonym TvlApiCharts = "AssetChartRow TvlApiChart ByResolution"

record BreakdownEntry =
  breakdownAssetId :: AssetId
  amount :: int
  usdValue :: int

type_synonym CategoryBreakdown = "ProjectId \<rightharpoonup> BreakdownEntry list"

record 'a ByCategory =
  external :: 'a
  native :: 'a
  canonical :: 'a

record Imports =
  getHourlyMinTimestamp :: "UnixTime \<Rightarrow> UnixTime"
  getSixHourlyMinTimestamp :: "UnixTime \<Rightarrow> UnixTime"
  dailyMinTimestamp :: UnixTime
  hourlyStep :: int
  sixHourlyStep :: int
  dailyStep :: int
  fillAllMissingAssetReports ::
    "Token \<Rightarrow> ProjectId \<Rightarrow> Report list ByResolution \<Rightarrow> UnixTime \<Rightarrow> Report FilledReports"
  getProjectAssetChartData :: "Report list \<Rightarrow> nat \<Rightarrow> AssetChartRow list"
  getNonCanonicalAssetsBreakdown ::
    "Report list \<Rightarrow> Token list \<Rightarrow> ReportType \<Rightarrow> CategoryBreakdown"
  getCanonicalAssetsBreakdown ::
    "BalanceRecord list \<Rightarrow> PriceRecord list \<Rightarrow> ReportProject list \<Rightarrow> CategoryBreakdown"
  toLowerCase :: "string \<Rightarrow> string"

section \<open>The gap filler\<close>

text \<open>
  \<^verbatim>\<open>fillAllMissingAggregatedReports\<close> (module \<^verbatim>\<open>./timerange\<close>) is missing from the
  sources; the definitions of this section follow section 4.2 of the specification.
\<close>

text \<open>
  Modelled from the spec: a resolution is hourly, six-hourly or daily, and has a step
  and a minimum timestamp. Both are configuration and come from \<open>Imports\<close>: the
  hourly and six-hourly minimum are the imported functions of the latest timestamp
  (the specification's \<open>latest - window\<close> is one choice of them), the daily minimum
  is a fixed lower bound.
\<close>

datatype Resolution = Hourly | SixHourly | Daily

fun step :: "Imports \<Rightarrow> Resolution \<Rightarrow> int" where
  "step imp Hourly = hourlyStep imp"
| "step imp SixHourly = sixHourlyStep imp"
| "step imp Daily = dailyStep imp"

fun minTimestamp :: "Imports \<Rightarrow> Resolution \<Rightarrow> UnixTime \<Rightarrow> UnixTime" where
  "minTimestamp imp Hourly latest = getHourlyMinTimestamp imp latest"
| "minTimestamp imp SixHourly latest = getSixHourlyMinTimestamp imp latest"
| "minTimestamp imp Daily latest = dailyMinTimestamp imp"

text \<open>
  Modelled from the spec: an entry of a filled series, either a real aggregate or a
  placeholder: its key, its slot and the two amounts.
\<close>

record FilledReport =
  filledProjectId :: ProjectId
  filledTimestamp :: UnixTime
  filledAsset :: int
  filledUsd :: int

text \<open>
  Modelled from the spec: the slots of a series run from the minimum timestamp to the
  latest one, inclusive, one step apart. A step that is not positive is no
  configuration at all; the enumeration is empty there, which keeps it total.
\<close>

function slots :: "int \<Rightarrow> UnixTime \<Rightarrow> UnixTime \<Rightarrow> UnixTime list" where
  "slots stp t latest = (if 0 < stp \<and> t \<le> latest then t # slots stp (t + stp) latest else [])"
  by pat_completeness auto
termination
  by (relation "measure (\<lambda>(stp, t, latest). nat (latest - t + 1))") auto

declare slots.simps [simp del]

text \<open>
  Modelled from the spec: the rows of a slot are those of its key and timestamp; rows
  outside the slots are never looked at.
\<close>

definition matchingRows :: "AggregatedReport list \<Rightarrow> ProjectId \<Rightarrow> UnixTime \<Rightarrow> AggregatedReport list" where
  "matchingRows rows k t = filter (\<lambda>r. aggProjectId r = k \<and> aggTimestamp r = t) rows"

text \<open>
  Modelled from the spec: a placeholder carries the slot's timestamp and zero for every
  numeric field.
\<close>

definition placeholder :: "ProjectId \<Rightarrow> UnixTime \<Rightarrow> FilledReport" where
  "placeholder k t =
     \<lparr>filledProjectId = k, filledTimestamp = t, filledAsset = 0, filledUsd = 0\<rparr>"

text \<open>
  Modelled from the spec: several rows of one slot are summed before placement.
\<close>

definition summed :: "ProjectId \<Rightarrow> UnixTime \<Rightarrow> AggregatedReport list \<Rightarrow> FilledReport" where
  "summed k t ms =
     foldl (\<lambda>e r. e\<lparr>filledAsset := filledAsset e + aggValueAsset r,
                      filledUsd := filledUsd e + aggValueUsd r\<rparr>)
       (placeholder k t) ms"

text \<open>
  Modelled from the spec: a slot looks up its rows and takes a placeholder when there is
  none.
\<close>

definition fillSlot :: "AggregatedReport list \<Rightarrow> ProjectId \<Rightarrow> UnixTime \<Rightarrow> FilledReport" where
  "fillSlot rows k t =
     (case matchingRows rows k t of [] \<Rightarrow> placeholder k t | r # rs \<Rightarrow> summed k t (r # rs))"

text \<open>
  Modelled from the spec: the filled series of a key has one entry per slot, in the
  order of the slots.
\<close>

definition fillSeries ::
  "int \<Rightarrow> UnixTime \<Rightarrow> UnixTime \<Rightarrow> AggregatedReport list \<Rightarrow> ProjectId \<Rightarrow> FilledReport list" where
  "fillSeries stp mn latest rows k = map (fillSlot rows k) (slots stp mn latest)"

text \<open>
  Modelled from the spec: the filled series of a key at a resolution, with the step and
  the minimum timestamp of that resolution.
\<close>

definition filledSeries ::
  "Imports \<Rightarrow> Resolution \<Rightarrow> AggregatedReport list \<Rightarrow> ProjectId \<Rightarrow> UnixTime \<Rightarrow> FilledReport list" where
  "filledSeries imp R rows k latest =
     fillSeries (step imp R) (minTimestamp imp R latest) latest rows k"

text \<open>
  Modelled from the spec: the filler of one resolution returns the series of the
  requested keys, one after the other; the controller hands this flat list to the
  grouper.
\<close>

definition fillMissingAggregatedReports ::
  "Imports \<Rightarrow> Resolution \<Rightarrow> ProjectId list \<Rightarrow> AggregatedReport list \<Rightarrow> UnixTime
     \<Rightarrow> FilledReport list" where
  "fillMissingAggregatedReports imp R ids rows latest =
     concat (map (\<lambda>k. filledSeries imp R rows k latest) ids)"

text \<open>
  Modelled from the spec: \<^verbatim>\<open>fillAllMissingAggregatedReports\<close> fills the three
  resolutions for the same keys and the same latest timestamp.
\<close>

definition fillAllMissingAggregatedReports ::
  "Imports \<Rightarrow> ProjectId list \<Rightarrow> AggregatedReport list ByResolution \<Rightarrow> UnixTime
     \<Rightarrow> FilledReport FilledReports" where
  "fillAllMissingAggregatedReports imp ids reports latest =
     \<lparr>filledHourlyReports =
        fillMissingAggregatedReports imp Hourly ids (hourly reports) latest,
      filledSixHourlyReports =
        fillMissingAggregatedReports imp SixHourly ids (sixHourly reports) latest,
      filledDailyReports =
        fillMissingAggregatedReports imp Daily ids (daily reports) latest\<rparr>"

section \<open>The grouper and the value-type deduplication\<close>

text \<open>
  \<^verbatim>\<open>groupByProjectIdAndTimestamp\<close>, \<^verbatim>\<open>groupByProjectIdAndAssetType\<close> and the
  reduction that the source's comment places in \<^verbatim>\<open>getProjectTokensCharts\<close> (module
  \<^verbatim>\<open>./detailedTvl\<close>) are missing from the sources; the definitions of this section
  follow section 4.3 of the specification.
\<close>

text \<open>
  Modelled from the spec: grouping loses no row and keeps the keys in the order of
  their first occurrence, as a JavaScript object or Map does; a row joins the end of
  its key's list.
\<close>

fun groupInsert :: "'k \<Rightarrow> 'v \<Rightarrow> ('k \<times> 'v list) list \<Rightarrow> ('k \<times> 'v list) list" where
  "groupInsert k v [] = [(k, [v])]"
| "groupInsert k v ((k', vs) # rest) =
     (if k = k' then (k', vs @ [v]) # rest else (k', vs) # groupInsert k v rest)"

text \<open>Modelled from the spec: the rows are grouped one by one, in their order.\<close>

definition groupByKey :: "('r \<Rightarrow> 'k) \<Rightarrow> 'r list \<Rightarrow> ('k \<times> 'r list) list" where
  "groupByKey key rows = foldl (\<lambda>acc r. groupInsert (key r) r acc) [] rows"

text \<open>
  Modelled from the spec: \<^verbatim>\<open>groupByProjectIdAndTimestamp\<close> maps a project to its
  rows by timestamp.
\<close>

definition groupByProjectIdAndTimestamp ::
  "FilledReport list \<Rightarrow> (ProjectId \<times> (UnixTime \<times> FilledReport list) list) list" where
  "groupByProjectIdAndTimestamp rows =
     map (\<lambda>(p, rs). (p, groupByKey filledTimestamp rs)) (groupByKey filledProjectId rows)"

text \<open>
  Modelled from the spec: \<^verbatim>\<open>groupByProjectIdAndAssetType\<close> maps a project to its rows
  by asset; an asset has several rows when several value types apply to it.
\<close>

definition groupByProjectIdAndAssetType ::
  "Report list \<Rightarrow> (ProjectId \<times> (AssetId \<times> Report list) list) list" where
  "groupByProjectIdAndAssetType rows =
     map (\<lambda>(p, rs). (p, groupByKey reportAssetId rs)) (groupByKey reportProjectId rows)"

text \<open>
  Modelled from the spec: the value-type deduplication reduces the rows of one slot, by
  summation, to one pair of asset amount and usd value.
\<close>

definition dedupe :: "Report list \<Rightarrow> int \<times> int" where
  "dedupe rs = foldl (\<lambda>(a, u) r. (a + valueAsset r, u + valueUsd r)) (0, 0) rs"

text \<open>
  Modelled from the spec: the latest snapshot of a project has one deduplicated entry
  per asset.
\<close>

definition getProjectTokensCharts ::
  "(ProjectId \<times> (AssetId \<times> Report list) list) list \<Rightarrow> ProjectId \<Rightarrow> (AssetId \<times> int \<times> int) list" where
  "getProjectTokensCharts latestReports p =
     (case map_of latestReports p of
        None \<Rightarrow> []
      | Some byAsset \<Rightarrow> map (\<lambda>(a, rs). (a, dedupe rs)) byAsset)"

section \<open>The response generator\<close>

text \<open>
  \<^verbatim>\<open>generateDetailedTvlApiResponse\<close> (module \<^verbatim>\<open>./generateDetailedTvlApiResponse\<close>)
  is missing from the sources; the definitions of this section follow section 4.4 of
  the specification. The specification gives no column labels for the charts of this
  response, so a chart is its rows: timestamp, asset amount, usd value.
\<close>

text \<open>
  Modelled from the spec: the entry of a project in the response holds its three charts
  and the latest snapshot of its assets; the response maps project ids to such entries.
\<close>

type_synonym ChartRow = "UnixTime \<times> int \<times> int"

record ProjectCharts =
  charts :: "ChartRow list ByResolution"
  latestTokens :: "(AssetId \<times> int \<times> int) list"

type_synonym DetailedTvlApiResponse = "(ProjectId \<times> ProjectCharts) list"

text \<open>Modelled from the spec: the rows of one slot of a chart are reduced by summation.\<close>

definition sumSlot :: "FilledReport list \<Rightarrow> int \<times> int" where
  "sumSlot rs = foldl (\<lambda>(a, u) r. (a + filledAsset r, u + filledUsd r)) (0, 0) rs"

text \<open>
  Modelled from the spec: the chart of a project has one row per grouped timestamp, in
  ascending order of timestamp; a project without rows has an empty chart.
\<close>

definition getChart ::
  "(ProjectId \<times> (UnixTime \<times> FilledReport list) list) list \<Rightarrow> ProjectId \<Rightarrow> ChartRow list" where
  "getChart grouped p =
     (case map_of grouped p of
        None \<Rightarrow> []
      | Some byTimestamp \<Rightarrow> map (\<lambda>(t, rs). (t, sumSlot rs)) (sort_key fst byTimestamp))"

text \<open>
  Modelled from the spec: \<^verbatim>\<open>generateDetailedTvlApiResponse\<close> visits the given project
  ids in order and stores, under each id, the three charts of that project and the
  latest snapshot of its assets. Storing under a key that is already present replaces
  its value and keeps its place, as a JavaScript object does.
\<close>

definition generateDetailedTvlApiResponse ::
  "(ProjectId \<times> (UnixTime \<times> FilledReport list) list) list
   \<Rightarrow> (ProjectId \<times> (UnixTime \<times> FilledReport list) list) list
   \<Rightarrow> (ProjectId \<times> (UnixTime \<times> FilledReport list) list) list
   \<Rightarrow> (ProjectId \<times> (AssetId \<times> Report list) list) list
   \<Rightarrow> ProjectId list \<Rightarrow> DetailedTvlApiResponse" where
  "generateDetailedTvlApiResponse hourlyReports sixHourlyReports dailyReports latestReports
       projectIds =
     foldl (\<lambda>acc p.
         AList.update p
           \<lparr>charts = \<lparr>hourly = getChart hourlyReports p,
                      sixHourly = getChart sixHourlyReports p,
                      daily = getChart dailyReports p\<rparr>,
            latestTokens = getProjectTokensCharts latestReports p\<rparr>
           acc)
       [] projectIds"

section \<open>The breakdown merger\<close>

text \<open>
  \<^verbatim>\<open>groupAndMergeBreakdowns\<close> (module \<^verbatim>\<open>./detailedTvl\<close>) is missing from the
  sources; the definitions of this section follow section 4.5 of the specification.
\<close>

text \<open>
  Modelled from the spec: the entries of a project in one category breakdown, the empty
  list when the breakdown has no key for the project.
\<close>

definition entriesOf :: "CategoryBreakdown \<Rightarrow> ProjectId \<Rightarrow> BreakdownEntry list" where
  "entriesOf b p = (case b p of None \<Rightarrow> [] | Some es \<Rightarrow> es)"

text \<open>
  Modelled from the spec: \<^verbatim>\<open>groupAndMergeBreakdowns\<close> visits the given projects in
  order and stores, under each project id, one record with the project's entries of
  each of the three categories.
\<close>

definition groupAndMergeBreakdowns ::
  "ReportProject list \<Rightarrow> CategoryBreakdown ByCategory
     \<Rightarrow> (ProjectId \<times> BreakdownEntry list ByCategory) list" where
  "groupAndMergeBreakdowns ps bs =
     foldl (\<lambda>acc pr.
         AList.update (projectId pr)
           \<lparr>external = entriesOf (external bs) (projectId pr),
            native = entriesOf (native bs) (projectId pr),
            canonical = entriesOf (canonical bs) (projectId pr)\<rparr>
           acc)
       [] ps"

section \<open>The three public operations\<close>

text \<open>
  Each operation returns its result together with the storage calls it issued. The
  early returns of the source are the first branches, in the source's order.
\<close>

definition getDetailedTvlApiResponse ::
  "Imports \<Rightarrow> DetailedTvlController \<Rightarrow> DetailedTvlApiResponse Result \<times> StorageCall list" where
  "getDetailedTvlApiResponse imp c =
     (let (dataTimings, calls) = getDataTimings c in
      case latestTimestamp dataTimings of
        None \<Rightarrow> (Error NO_DATA, calls)
      | Some latest \<Rightarrow>
          if \<not> isSynced dataTimings \<and> errorOnUnsyncedDetailedTvl (options c)
          then (Error DATA_NOT_FULLY_SYNCED, calls)
          else
            (let hourlyReports =
                   getHourlyWithAnyType (storage c) (getHourlyMinTimestamp imp latest);
                 sixHourlyReports =
                   getSixHourlyWithAnyType (storage c) (getSixHourlyMinTimestamp imp latest);
                 dailyReports = getDailyWithAnyType (storage c);
                 latestReports = reportGetByTimestamp (storage c) latest;
                 allProjectIdsToSeekFor =
                   map projectId (projects c) @
                   [ProjectId_ALL, ProjectId_BRIDGES, ProjectId_LAYER2S];
                 filled =
                   fillAllMissingAggregatedReports imp allProjectIdsToSeekFor
                     \<lparr>hourly = hourlyReports, sixHourly = sixHourlyReports,
                      daily = dailyReports\<rparr>
                     latest;
                 groupedHourlyReports =
                   groupByProjectIdAndTimestamp (filledHourlyReports filled);
                 groupedSixHourlyReportsTree =
                   groupByProjectIdAndTimestamp (filledSixHourlyReports filled);
                 groupedDailyReports =
                   groupByProjectIdAndTimestamp (filledDailyReports filled);
                 groupedLatestReports = groupByProjectIdAndAssetType latestReports;
                 tvlApiResponse =
                   generateDetailedTvlApiResponse groupedHourlyReports
                     groupedSixHourlyReportsTree groupedDailyReports groupedLatestReports
                     (map projectId (projects c))
             in (Success tvlApiResponse,
                 calls @
                 [GetHourlyWithAnyType (getHourlyMinTimestamp imp latest),
                  GetSixHourlyWithAnyType (getSixHourlyMinTimestamp imp latest),
                  GetDailyWithAnyType,
                  ReportGetByTimestamp latest])))"

definition getDetailedAssetTvlApiResponse ::
  "Imports \<Rightarrow> DetailedTvlController \<Rightarrow> ProjectId \<Rightarrow> ChainId \<Rightarrow> AssetId \<Rightarrow> ReportType
     \<Rightarrow> TvlApiCharts Result \<times> StorageCall list" where
  "getDetailedAssetTvlApiResponse imp c pid chainId assetId assetType =
     (case find (\<lambda>t. id_t t = assetId) (tokens c) of
        None \<Rightarrow> (Error INVALID_PROJECT_OR_ASSET, [])
      | Some asset \<Rightarrow>
     (case find (\<lambda>p. projectId p = pid) (projects c) of
        None \<Rightarrow> (Error INVALID_PROJECT_OR_ASSET, [])
      | Some project \<Rightarrow>
     (let (dataTimings, calls) = getDataTimings c in
      case latestTimestamp dataTimings of
        None \<Rightarrow> (Error NO_DATA, calls)
      | Some latest \<Rightarrow>
          if \<not> isSynced dataTimings \<and> errorOnUnsyncedDetailedTvl (options c)
          then (Error DATA_NOT_FULLY_SYNCED, calls)
          else
            (let hourlyReports =
                   getHourlyForDetailed (storage c) pid chainId assetId assetType
                     (getHourlyMinTimestamp imp latest);
                 sixHourlyReports =
                   getSixHourlyForDetailed (storage c) pid chainId assetId assetType
                     (getSixHourlyMinTimestamp imp latest);
                 dailyReports =
                   getDailyForDetailed (storage c) pid chainId assetId assetType;
                 assetSymbol = toLowerCase imp (symbol asset);
                 types = [''timestamp'', assetSymbol, ''usd''];
                 filled =
                   fillAllMissingAssetReports imp asset (projectId project)
                     \<lparr>hourly = hourlyReports, sixHourly = sixHourlyReports,
                      daily = dailyReports\<rparr>
                     latest
             in (Success
                   \<lparr>hourly =
                      \<lparr>types = types,
                       data = getProjectAssetChartData imp (filledHourlyReports filled)
                                (decimals asset)\<rparr>,
                    sixHourly =
                      \<lparr>types = types,
                       data = getProjectAssetChartData imp (filledSixHourlyReports filled)
                                (decimals asset)\<rparr>,
                    daily =
                      \<lparr>types = types,
                       data = getProjectAssetChartData imp (filledDailyReports filled)
                                (decimals asset)\<rparr>\<rparr>,
                 calls @
                 [GetHourlyForDetailed pid chainId assetId assetType
                    (getHourlyMinTimestamp imp latest),
                  GetSixHourlyForDetailed pid chainId assetId assetType
                    (getSixHourlyMinTimestamp imp latest),
                  GetDailyForDetailed pid chainId assetId assetType])))))"

record ProjectAssetsBreakdownApiResponse =
  dataTimestamp :: UnixTime
  breakdowns :: "(ProjectId \<times> BreakdownEntry list ByCategory) list"

definition getProjectTokenBreakdownApiResponse ::
  "Imports \<Rightarrow> DetailedTvlController
     \<Rightarrow> ProjectAssetsBreakdownApiResponse Result \<times> StorageCall list" where
  "getProjectTokenBreakdownApiResponse imp c =
     (let (dataTimings, calls) = getDataTimings c in
      case latestTimestamp dataTimings of
        None \<Rightarrow> (Error NO_DATA, calls)
      | Some latest \<Rightarrow>
          if \<not> isSynced dataTimings \<and> errorOnUnsyncedDetailedTvl (options c)
          then (Error DATA_NOT_FULLY_SYNCED, calls)
          else
            (let latestReports = reportGetByTimestamp (storage c) latest;
                 balances = balanceGetByTimestamp (storage c) latest;
                 prices = priceGetByTimestamp (storage c) latest;
                 externalAssetsBreakdown =
                   getNonCanonicalAssetsBreakdown imp latestReports (tokens c) EBV;
                 nativeAssetsBreakdown =
                   getNonCanonicalAssetsBreakdown imp latestReports (tokens c) NMV;
                 canonicalAssetsBreakdown =
                   getCanonicalAssetsBreakdown imp balances prices (projects c);
                 merged =
                   groupAndMergeBreakdowns (projects c)
                     \<lparr>external = externalAssetsBreakdown,
                      native = nativeAssetsBreakdown,
                      canonical = canonicalAssetsBreakdown\<rparr>
             in (Success \<lparr>dataTimestamp = latest, breakdowns = merged\<rparr>,
                 calls @
                 [ReportGetByTimestamp latest,
                  BalanceGetByTimestamp latest,
                  PriceGetByTimestamp latest])))"

section \<open>Example inputs\<close>

text \<open>
  One configured project \<open>P\<close> and one known token \<open>A\<close>. The status queries answer
  with five matching rows, \<open>d\<close> differing rows and the given latest timestamp. The
  hourly rows mention \<open>P\<close>, a project \<open>Q\<close> that is not configured and the rollup of
  all projects; the latest reports hold two value types of the same asset of \<open>P\<close>.
  Time is counted in hours in the examples: the hourly window has three slots. The
  symbols of the examples are ASCII, where lowering a string lowers the letters A to Z.
\<close>

definition exampleRows :: "AggregatedReport list" where
  "exampleRows =
     [\<lparr>aggProjectId = ProjectId ''P'', aggValueType = TVL, aggTimestamp = 999,
       aggValueAsset = 7, aggValueUsd = 50\<rparr>,
      \<lparr>aggProjectId = ProjectId ''Q'', aggValueType = TVL, aggTimestamp = 999,
       aggValueAsset = 1, aggValueUsd = 10\<rparr>,
      \<lparr>aggProjectId = ProjectId_ALL, aggValueType = TVL, aggTimestamp = 999,
       aggValueAsset = 8, aggValueUsd = 60\<rparr>]"

definition exampleCBV :: Report where
  "exampleCBV =
     \<lparr>reportProjectId = ProjectId ''P'', reportChainId = 1, reportAssetId = ''A'',
      reportValueType = CBV, reportTimestamp = 1000, valueAsset = 3, valueUsd = 30\<rparr>"

definition exampleEBV :: Report where
  "exampleEBV =
     \<lparr>reportProjectId = ProjectId ''P'', reportChainId = 1, reportAssetId = ''A'',
      reportValueType = EBV, reportTimestamp = 1000, valueAsset = 2, valueUsd = 20\<rparr>"

definition exampleStorage :: "nat \<Rightarrow> UnixTime option \<Rightarrow> Storage" where
  "exampleStorage d latest =
     \<lparr>findCountsForHash = (\<lambda>h. \<lparr>matching = 5, different = d\<rparr>),
      findLatestTimestamp = latest,
      getHourlyWithAnyType = (\<lambda>t. exampleRows),
      getSixHourlyWithAnyType = (\<lambda>t. []),
      getDailyWithAnyType = [],
      reportGetByTimestamp = (\<lambda>t. [exampleCBV, exampleEBV]),
      getHourlyForDetailed = (\<lambda>p ch a ty t. []),
      getSixHourlyForDetailed = (\<lambda>p ch a ty t. []),
      getDailyForDetailed = (\<lambda>p ch a ty. []),
      balanceGetByTimestamp = (\<lambda>t. []),
      priceGetByTimestamp = (\<lambda>t. [])\<rparr>"

definition exampleController :: "nat \<Rightarrow> UnixTime option \<Rightarrow> bool \<Rightarrow> DetailedTvlController" where
  "exampleController d latest flag =
     \<lparr>storage = exampleStorage d latest,
      projects = [\<lparr>projectId = ProjectId ''P''\<rparr>],
      tokens = [\<lparr>id_t = ''A'', symbol = ''USDC'', decimals = 6\<rparr>],
      aggregatedConfigHash = ''h'',
      options = \<lparr>errorOnUnsyncedDetailedTvl = flag\<rparr>\<rparr>"

definition exampleImports :: Imports where
  "exampleImports =
     \<lparr>getHourlyMinTimestamp = (\<lambda>t. t - 2),
      getSixHourlyMinTimestamp = (\<lambda>t. t - 12),
      dailyMinTimestamp = 952,
      hourlyStep = 1,
      sixHourlyStep = 6,
      dailyStep = 24,
      fillAllMissingAssetReports =
        (\<lambda>asset p reports latest.
           \<lparr>filledHourlyReports = hourly reports,
            filledSixHourlyReports = sixHourly reports,
            filledDailyReports = daily reports\<rparr>),
      getProjectAssetChartData = (\<lambda>reports dec. []),
      getNonCanonicalAssetsBreakdown = (\<lambda>reports toks ty. Map.empty),
      getCanonicalAssetsBreakdown = (\<lambda>balances prices ps. Map.empty),
      toLowerCase =
        map (\<lambda>ch. let n = (of_char ch :: nat) in
                   if 65 \<le> n \<and> n \<le> 90 then char_of (n + 32) else ch)\<rparr>"

definition exampleProjects :: "ReportProject list" where
  "exampleProjects = [\<lparr>projectId = ProjectId ''P''\<rparr>, \<lparr>projectId = ProjectId ''Q''\<rparr>]"

definition exampleEntry :: BreakdownEntry where
  "exampleEntry = \<lparr>breakdownAssetId = ''A'', amount = 3, usdValue = 30\<rparr>"

definition exampleBreakdowns :: "CategoryBreakdown ByCategory" where
  "exampleBreakdowns =
     \<lparr>external = Map.empty,
      native = [ProjectId ''P'' \<mapsto> [exampleEntry]],
      canonical = Map.empty\<rparr>"

definition exampleResponse :: DetailedTvlApiResponse where
  "exampleResponse =
     [(ProjectId ''P'',
       \<lparr>charts =
          \<lparr>hourly = [(998, 0, 0), (999, 7, 50), (1000, 0, 0)],
           sixHourly = [(988, 0, 0), (994, 0, 0), (1000, 0, 0)],
           daily = [(952, 0, 0), (976, 0, 0), (1000, 0, 0)]\<rparr>,
        latestTokens = [(''A'', 5, 50)]\<rparr>)]"

text \<open>
  A storage without any row: the status queries count no row and find no timestamp, and
  every other query returns no row.
\<close>

definition emptyStorage :: Storage where
  "emptyStorage =
     \<lparr>findCountsForHash = (\<lambda>h. \<lparr>matching = 0, different = 0\<rparr>),
      findLatestTimestamp = None,
      getHourlyWithAnyType = (\<lambda>t. []),
      getSixHourlyWithAnyType = (\<lambda>t. []),
      getDailyWithAnyType = [],
      reportGetByTimestamp = (\<lambda>t. []),
      getHourlyForDetailed = (\<lambda>p ch a ty t. []),
      getSixHourlyForDetailed = (\<lambda>p ch a ty t. []),
      getDailyForDetailed = (\<lambda>p ch a ty. []),
      balanceGetByTimestamp = (\<lambda>t. []),
      priceGetByTimestamp = (\<lambda>t. [])\<rparr>"

definition emptyTableController :: DetailedTvlController where
  "emptyTableController =
     \<lparr>storage = emptyStorage,
      projects = [\<lparr>projectId = ProjectId ''P''\<rparr>],
      tokens = [\<lparr>id_t = ''A'', symbol = ''USDC'', decimals = 6\<rparr>],
      aggregatedConfigHash = ''h'',
      options = \<lparr>errorOnUnsyncedDetailedTvl = True\<rparr>\<rparr>"

section \<open>Facts about the controller\<close>

lemma getDataTimings_calls:
  "snd (getDataTimings c) = [FindCountsForHash (aggregatedConfigHash c), FindLatestTimestamp]"
  by (simp add: getDataTimings_def Let_def)

lemma known_asset:
  "assetId \<in> id_t ` set ts \<Longrightarrow> \<exists>asset. find (\<lambda>t. id_t t = assetId) ts = Some asset"
  by (cases "find (\<lambda>t. id_t t = assetId) ts") (auto simp: find_None_iff)

lemma known_project:
  "pid \<in> projectId ` set ps \<Longrightarrow> \<exists>project. find (\<lambda>p. projectId p = pid) ps = Some project"
  by (cases "find (\<lambda>p. projectId p = pid) ps") (auto simp: find_None_iff)

lemma unknown_asset:
  "assetId \<notin> id_t ` set ts \<Longrightarrow> find (\<lambda>t. id_t t = assetId) ts = None"
  by (auto simp: find_None_iff)

lemma unknown_project:
  "pid \<notin> projectId ` set ps \<Longrightarrow> find (\<lambda>p. projectId p = pid) ps = None"
  by (auto simp: find_None_iff)

text \<open>The three outcomes of \<^verbatim>\<open>getDetailedTvlApiResponse\<close>.\<close>

lemma tvl_no_data:
  "latestTimestamp (fst (getDataTimings c)) = None \<Longrightarrow>
     fst (getDetailedTvlApiResponse imp c) = Error NO_DATA"
  by (simp add: getDetailedTvlApiResponse_def case_prod_beta)


lemma tvl_success:
  "latestTimestamp (fst (getDataTimings c)) = Some latest \<Longrightarrow>
   isSynced (fst (getDataTimings c)) \<or> \<not> errorOnUnsyncedDetailedTvl (options c) \<Longrightarrow>
     \<exists>d. fst (getDetailedTvlApiResponse imp c) = Success d"
  by (auto simp add: getDetailedTvlApiResponse_def Let_def case_prod_beta)

lemma tvl_unsynced_has_latest:
  "fst (getDetailedTvlApiResponse imp c) = Error DATA_NOT_FULLY_SYNCED \<Longrightarrow>
     latestTimestamp (fst (getDataTimings c)) \<noteq> None"
  using tvl_no_data [of c imp] by auto


text \<open>The three outcomes of \<^verbatim>\<open>getProjectTokenBreakdownApiResponse\<close>.\<close>

lemma breakdown_no_data:
  "latestTimestamp (fst (getDataTimings c)) = None \<Longrightarrow>
     fst (getProjectTokenBreakdownApiResponse imp c) = Error NO_DATA"
  by (simp add: getProjectTokenBreakdownApiResponse_def case_prod_beta)


lemma breakdown_success:
  "latestTimestamp (fst (getDataTimings c)) = Some latest \<Longrightarrow>
   isSynced (fst (getDataTimings c)) \<or> \<not> errorOnUnsyncedDetailedTvl (options c) \<Longrightarrow>
     \<exists>d. fst (getProjectTokenBreakdownApiResponse imp c) = Success d"
  by (auto simp add: getProjectTokenBreakdownApiResponse_def Let_def case_prod_beta)


lemma breakdown_unsynced_has_latest:
  "fst (getProjectTokenBreakdownApiResponse imp c) = Error DATA_NOT_FULLY_SYNCED \<Longrightarrow>
     latestTimestamp (fst (getDataTimings c)) \<noteq> None"
  using breakdown_no_data [of c imp] by auto

text \<open>
  The outcomes of \<^verbatim>\<open>getDetailedAssetTvlApiResponse\<close> once the asset and the project
  are found.
\<close>

lemma asset_no_data:
  assumes "assetId \<in> id_t ` set (tokens c)" and "pid \<in> projectId ` set (projects c)"
    and "latestTimestamp (fst (getDataTimings c)) = None"
  shows "fst (getDetailedAssetTvlApiResponse imp c pid chainId assetId assetType) = Error NO_DATA"
proof -
  obtain asset where a: "find (\<lambda>t. id_t t = assetId) (tokens c) = Some asset"
    using assms(1) known_asset by blast
  obtain project where p: "find (\<lambda>p. projectId p = pid) (projects c) = Some project"
    using assms(2) known_project by blast
  show ?thesis using assms(3)
    by (simp add: getDetailedAssetTvlApiResponse_def a p case_prod_beta)
qed


lemma asset_success:
  assumes "assetId \<in> id_t ` set (tokens c)" and "pid \<in> projectId ` set (projects c)"
    and "latestTimestamp (fst (getDataTimings c)) = Some latest"
    and "isSynced (fst (getDataTimings c)) \<or> \<not> errorOnUnsyncedDetailedTvl (options c)"
  shows "\<exists>d. getDetailedAssetTvlApiResponse imp c pid chainId assetId assetType =
           (Success d,
            [FindCountsForHash (aggregatedConfigHash c), FindLatestTimestamp,
             GetHourlyForDetailed pid chainId assetId assetType (getHourlyMinTimestamp imp latest),
             GetSixHourlyForDetailed pid chainId assetId assetType
               (getSixHourlyMinTimestamp imp latest),
             GetDailyForDetailed pid chainId assetId assetType])"
proof -
  obtain asset where a: "find (\<lambda>t. id_t t = assetId) (tokens c) = Some asset"
    using assms(1) known_asset by blast
  obtain project where p: "find (\<lambda>p. projectId p = pid) (projects c) = Some project"
    using assms(2) known_project by blast
  obtain dt calls where g: "getDataTimings c = (dt, calls)" by (cases "getDataTimings c")
  have calls: "calls = [FindCountsForHash (aggregatedConfigHash c), FindLatestTimestamp]"
    using getDataTimings_calls [of c] g by simp
  show ?thesis using assms(3-) g calls
    by (auto simp add: getDetailedAssetTvlApiResponse_def a p Let_def)
qed

lemma asset_calls_prefix:
  assumes "assetId \<in> id_t ` set (tokens c)" and "pid \<in> projectId ` set (projects c)"
  shows "take 2 (snd (getDetailedAssetTvlApiResponse imp c pid chainId assetId assetType)) =
           [FindCountsForHash (aggregatedConfigHash c), FindLatestTimestamp]"
proof -
  obtain asset where a: "find (\<lambda>t. id_t t = assetId) (tokens c) = Some asset"
    using assms(1) known_asset by blast
  obtain project where p: "find (\<lambda>p. projectId p = pid) (projects c) = Some project"
    using assms(2) known_project by blast
  obtain dt calls where g: "getDataTimings c = (dt, calls)" by (cases "getDataTimings c")
  have calls: "calls = [FindCountsForHash (aggregatedConfigHash c), FindLatestTimestamp]"
    using getDataTimings_calls [of c] g by simp
  show ?thesis using g calls
    by (auto simp add: getDetailedAssetTvlApiResponse_def a p Let_def split: option.splits)
qed

lemma asset_not_invalid:
  assumes "assetId \<in> id_t ` set (tokens c)" and "pid \<in> projectId ` set (projects c)"
  shows "fst (getDetailedAssetTvlApiResponse imp c pid chainId assetId assetType) \<noteq>
           Error INVALID_PROJECT_OR_ASSET"
proof -
  obtain asset where a: "find (\<lambda>t. id_t t = assetId) (tokens c) = Some asset"
    using assms(1) known_asset by blast
  obtain project where p: "find (\<lambda>p. projectId p = pid) (projects c) = Some project"
    using assms(2) known_project by blast
  show ?thesis
    by (auto simp add: getDetailedAssetTvlApiResponse_def a p Let_def
             split: option.splits prod.splits)
qed


lemma asset_unsynced_has_latest:
  "fst (getDetailedAssetTvlApiResponse imp c pid chainId assetId assetType) =
      Error DATA_NOT_FULLY_SYNCED \<Longrightarrow>
   latestTimestamp (fst (getDataTimings c)) \<noteq> None"
  by (auto simp add: getDetailedAssetTvlApiResponse_def Let_def
           split: option.splits prod.splits if_splits)

section \<open>Facts about the gap filler\<close>







lemma summed_fields:
  "filledProjectId (foldl (\<lambda>e r. e\<lparr>filledAsset := filledAsset e + aggValueAsset r,
                      filledUsd := filledUsd e + aggValueUsd r\<rparr>) e0 ms) = filledProjectId e0 \<and>
   filledTimestamp (foldl (\<lambda>e r. e\<lparr>filledAsset := filledAsset e + aggValueAsset r,
                      filledUsd := filledUsd e + aggValueUsd r\<rparr>) e0 ms) = filledTimestamp e0 \<and>
   filledAsset (foldl (\<lambda>e r. e\<lparr>filledAsset := filledAsset e + aggValueAsset r,
                      filledUsd := filledUsd e + aggValueUsd r\<rparr>) e0 ms) =
     filledAsset e0 + sum_list (map aggValueAsset ms) \<and>
   filledUsd (foldl (\<lambda>e r. e\<lparr>filledAsset := filledAsset e + aggValueAsset r,
                      filledUsd := filledUsd e + aggValueUsd r\<rparr>) e0 ms) =
     filledUsd e0 + sum_list (map aggValueUsd ms)"
  by (induction ms arbitrary: e0) simp_all

lemma fillSlot_eq:
  "fillSlot rows k t =
     \<lparr>filledProjectId = k, filledTimestamp = t,
      filledAsset = sum_list (map aggValueAsset (matchingRows rows k t)),
      filledUsd = sum_list (map aggValueUsd (matchingRows rows k t))\<rparr>"
proof (cases "matchingRows rows k t")
  case Nil
  then show ?thesis by (simp add: fillSlot_def placeholder_def)
next
  case (Cons r rs)
  have "summed k t (r # rs) =
     \<lparr>filledProjectId = k, filledTimestamp = t,
      filledAsset = sum_list (map aggValueAsset (r # rs)),
      filledUsd = sum_list (map aggValueUsd (r # rs))\<rparr>"
    unfolding summed_def
    using summed_fields [of "placeholder k t" "r # rs"]
    by (intro FilledReport.equality) (simp_all add: placeholder_def)
  with Cons show ?thesis by (simp add: fillSlot_def)
qed



section \<open>Facts about stores under a key and about grouping\<close>

lemma foldl_update_keys:
  "fst ` set (foldl (\<lambda>acc p. AList.update (k p) (f p) acc) acc0 ps) =
     fst ` set acc0 \<union> k ` set ps"
  by (induction ps arbitrary: acc0) (auto simp: dom_update)

lemma foldl_update_distinct:
  "distinct (map fst acc0) \<Longrightarrow>
     distinct (map fst (foldl (\<lambda>acc p. AList.update (k p) (f p) acc) acc0 ps))"
  by (induction ps arbitrary: acc0) (auto simp: distinct_update)

lemma foldl_update_map_of:
  "map_of (foldl (\<lambda>acc p. AList.update (k p) (g (k p)) acc) acc0 ps) q =
     (if q \<in> k ` set ps then Some (g q) else map_of acc0 q)"
  by (induction ps arbitrary: acc0) (auto simp: update_conv')

lemma groupInsert_map_of:
  "map_of (groupInsert k v al) =
     (map_of al)(k \<mapsto> (case map_of al k of None \<Rightarrow> [v] | Some vs \<Rightarrow> vs @ [v]))"
  by (induction al) (auto simp: fun_eq_iff)

lemma groupInsert_keys:
  "map fst (groupInsert k v al) =
     (if k \<in> fst ` set al then map fst al else map fst al @ [k])"
  by (induction al) force+

lemma groupInsert_distinct:
  "distinct (map fst al) \<Longrightarrow> distinct (map fst (groupInsert k v al))"
  by (simp add: groupInsert_keys)

lemma groupByKey_snoc:
  "groupByKey key (rows @ [r]) = groupInsert (key r) r (groupByKey key rows)"
  by (simp add: groupByKey_def)

lemma groupByKey_distinct: "distinct (map fst (groupByKey key rows))"
  by (induction rows rule: rev_induct)
     (simp_all add: groupByKey_snoc groupInsert_distinct, simp add: groupByKey_def)

lemma groupByKey_map_of:
  "map_of (groupByKey key rows) k =
     (if k \<in> key ` set rows then Some (filter (\<lambda>r. key r = k) rows) else None)"
proof (induction rows rule: rev_induct)
  case Nil
  show ?case by (simp add: groupByKey_def)
next
  case (snoc r rows)
  have ins: "map_of (groupByKey key (rows @ [r])) =
      (map_of (groupByKey key rows))
        (key r \<mapsto> (case map_of (groupByKey key rows) (key r) of
                      None \<Rightarrow> [r] | Some vs \<Rightarrow> vs @ [r]))"
    by (simp only: groupByKey_snoc groupInsert_map_of)
  show ?case
  proof (cases "key r = k")
    case same: True
    show ?thesis
    proof (cases "k \<in> key ` set rows")
      case True
      with snoc.IH same show ?thesis by (simp add: ins)
    next
      case False
      then have "filter (\<lambda>x. key x = k) rows = []"
        by (auto simp: filter_empty_conv)
      with False snoc.IH same show ?thesis by (simp add: ins)
    qed
  next
    case False
    with snoc.IH show ?thesis by (auto simp: ins)
  qed
qed

lemma groupByKey_same_key:
  assumes "rows \<noteq> []" and "\<forall>r \<in> set rows. key r = k"
  shows "groupByKey key rows = [(k, rows)]"
  using assms
proof (induction rows rule: rev_induct)
  case Nil
  then show ?case by simp
next
  case (snoc r rows)
  show ?case
  proof (cases "rows = []")
    case True
    with snoc.prems show ?thesis by (simp add: groupByKey_def)
  next
    case False
    with snoc have "groupByKey key rows = [(k, rows)]" by simp
    with snoc.prems show ?thesis by (simp add: groupByKey_snoc)
  qed
qed

section \<open>Facts about the deduplication\<close>

lemma dedupe_foldl:
  "foldl (\<lambda>(a, u) r. (a + valueAsset r, u + valueUsd r)) (a0, u0) rs =
     (a0 + sum_list (map valueAsset rs), u0 + sum_list (map valueUsd rs))"
  by (induction rs arbitrary: a0 u0) simp_all

lemma dedupe_sums:
  "dedupe rs = (sum_list (map valueAsset rs), sum_list (map valueUsd rs))"
  by (simp add: dedupe_def dedupe_foldl)

lemma sum_list_mset_cong:
  fixes f :: "'a \<Rightarrow> int"
  assumes "mset xs = mset ys"
  shows "sum_list (map f xs) = sum_list (map f ys)"
proof -
  have "sum_list (map f xs) = sum_mset (image_mset f (mset xs))"
    by (metis mset_map sum_mset_sum_list)
  also have "\<dots> = sum_mset (image_mset f (mset ys))" by (simp only: assms)
  also have "\<dots> = sum_list (map f ys)"
    by (metis mset_map sum_mset_sum_list)
  finally show ?thesis .
qed

lemma dedupe_mset: "mset rs' = mset rs \<Longrightarrow> dedupe rs' = dedupe rs"
  by (simp add: dedupe_sums sum_list_mset_cong [of rs' rs])

lemma tokens_map_of:
  "map_of (getProjectTokensCharts (groupByProjectIdAndAssetType rows) p) a =
     (if \<exists>r \<in> set rows. reportProjectId r = p \<and> reportAssetId r = a
      then Some (dedupe (filter (\<lambda>r. reportProjectId r = p \<and> reportAssetId r = a) rows))
      else None)"
proof (cases "p \<in> reportProjectId ` set rows")
  case False
  then have "map_of (groupByProjectIdAndAssetType rows) p = None"
    by (simp add: groupByProjectIdAndAssetType_def map_of_map groupByKey_map_of)
  with False show ?thesis by (auto simp: getProjectTokensCharts_def)
next
  case True
  let ?rs = "filter (\<lambda>r. reportProjectId r = p) rows"
  from True have g: "map_of (groupByProjectIdAndAssetType rows) p =
      Some (groupByKey reportAssetId ?rs)"
    by (simp add: groupByProjectIdAndAssetType_def map_of_map groupByKey_map_of)
  have "map_of (getProjectTokensCharts (groupByProjectIdAndAssetType rows) p) a =
      map_option dedupe (map_of (groupByKey reportAssetId ?rs) a)"
    by (simp add: getProjectTokensCharts_def g map_of_map)
  also have "\<dots> =
      (if a \<in> reportAssetId ` set ?rs
       then Some (dedupe (filter (\<lambda>r. reportAssetId r = a) ?rs)) else None)"
    by (simp add: groupByKey_map_of)
  also have "\<dots> =
     (if \<exists>r \<in> set rows. reportProjectId r = p \<and> reportAssetId r = a
      then Some (dedupe (filter (\<lambda>r. reportProjectId r = p \<and> reportAssetId r = a) rows))
      else None)"
    by (auto simp: conj_commute)
  finally show ?thesis .
qed

lemma tokens_distinct:
  "distinct (map fst (getProjectTokensCharts (groupByProjectIdAndAssetType rows) p))"
proof (cases "map_of (groupByProjectIdAndAssetType rows) p")
  case None
  then show ?thesis by (simp add: getProjectTokensCharts_def)
next
  case (Some byAsset)
  then have "(p, byAsset) \<in> set (groupByProjectIdAndAssetType rows)"
    by (rule map_of_SomeD)
  then obtain rs where "byAsset = groupByKey reportAssetId rs"
    by (auto simp: groupByProjectIdAndAssetType_def)
  then have d: "distinct (map fst byAsset)" by (simp add: groupByKey_distinct)
  have e: "map fst (map (\<lambda>(a, rs). (a, dedupe rs)) byAsset) = map fst byAsset"
    by (induction byAsset) auto
  show ?thesis
    unfolding getProjectTokensCharts_def Some by (simp only: option.case e d)
qed

lemma tokens_single:
  assumes "rows \<noteq> []" and "\<forall>r \<in> set rows. reportProjectId r = p \<and> reportAssetId r = a"
  shows "getProjectTokensCharts (groupByProjectIdAndAssetType rows) p = [(a, dedupe rows)]"
proof -
  have "groupByKey reportProjectId rows = [(p, rows)]"
    using assms by (intro groupByKey_same_key) auto
  moreover have "groupByKey reportAssetId rows = [(a, rows)]"
    using assms by (intro groupByKey_same_key) auto
  ultimately show ?thesis
    by (simp add: getProjectTokensCharts_def groupByProjectIdAndAssetType_def)
qed

section \<open>The sync status\<close>

text \<open>
  Claim C1. For every configuration hash, the timings have \<open>isSynced\<close> exactly when
  the count of rows whose hash differs from the current one is zero; the count of
  matching rows plays no part.
\<close>

theorem getDataTimings_isSynced:
  "isSynced (fst (getDataTimings c)) \<longleftrightarrow>
     different (findCountsForHash (storage c) (aggregatedConfigHash c)) = 0"
  by (simp add: getDataTimings_def Let_def)

theorem getDataTimings_isSynced_witness:
  "isSynced (fst (getDataTimings (exampleController 0 (Some 1000) True))) \<and>
   \<not> isSynced (fst (getDataTimings (exampleController 2 (Some 1000) True)))"
  unfolding getDataTimings_isSynced
  by (simp add: exampleController_def exampleStorage_def)

text \<open>
  Claim C2, as amended. \<^verbatim>\<open>getDataTimings\<close> computes \<open>isSynced\<close> from the count of
  differing rows alone, whatever the latest timestamp is: when the storage has no
  latest timestamp, \<open>latestTimestamp\<close> is undefined and \<open>isSynced\<close> is true exactly
  when no row differs. So over an empty table the result is an undefined
  \<open>latestTimestamp\<close> with \<open>isSynced\<close> true, and \<open>isSynced\<close> is false next to an
  undefined \<open>latestTimestamp\<close> only when some row differs.
\<close>

theorem getDataTimings_without_latest:
  assumes "findLatestTimestamp (storage c) = None"
  shows "latestTimestamp (fst (getDataTimings c)) = None \<and>
         (isSynced (fst (getDataTimings c)) \<longleftrightarrow>
            different (findCountsForHash (storage c) (aggregatedConfigHash c)) = 0)"
  using assms by (simp add: getDataTimings_def Let_def)

theorem getDataTimings_without_latest_witness:
  "findLatestTimestamp (storage emptyTableController) = None \<and>
   latestTimestamp (fst (getDataTimings emptyTableController)) = None \<and>
   isSynced (fst (getDataTimings emptyTableController)) \<and>
   findLatestTimestamp (storage (exampleController 2 None True)) = None \<and>
   \<not> isSynced (fst (getDataTimings (exampleController 2 None True)))"
  using getDataTimings_without_latest [of emptyTableController]
    getDataTimings_without_latest [of "exampleController 2 None True"]
  by (simp add: emptyTableController_def emptyStorage_def exampleController_def
        exampleStorage_def)

text \<open>
  The claim as first stated asks for \<open>isSynced\<close> false whenever \<open>latestTimestamp\<close> is
  undefined. Over the empty table both counts are zero and there is no timestamp: the
  timings have no \<open>latestTimestamp\<close> and \<open>isSynced\<close> true.
\<close>

theorem getDataTimings_empty_table_counterexample:
  "matching (findCountsForHash (storage emptyTableController)
      (aggregatedConfigHash emptyTableController)) = 0 \<and>
   different (findCountsForHash (storage emptyTableController)
      (aggregatedConfigHash emptyTableController)) = 0 \<and>
   latestTimestamp (fst (getDataTimings emptyTableController)) = None \<and>
   isSynced (fst (getDataTimings emptyTableController))"
  by (simp add: getDataTimings_def emptyTableController_def emptyStorage_def)

section \<open>The error results of the three operations\<close>




text \<open>
  Claim C6. Whenever the requested asset is not among the known tokens or the requested
  project is not among the configured projects, \<^verbatim>\<open>getDetailedAssetTvlApiResponse\<close>
  returns the error \<^verbatim>\<open>INVALID_PROJECT_OR_ASSET\<close> and has issued no storage call.
\<close>

theorem invalid_project_or_asset_before_storage:
  assumes "assetId \<notin> id_t ` set (tokens c) \<or> pid \<notin> projectId ` set (projects c)"
  shows "getDetailedAssetTvlApiResponse imp c pid chainId assetId assetType =
           (Error INVALID_PROJECT_OR_ASSET, [])"
  using assms
  by (auto simp: getDetailedAssetTvlApiResponse_def unknown_asset unknown_project
           split: option.splits)

theorem invalid_project_or_asset_before_storage_witness:
  "''B'' \<notin> id_t ` set (tokens (exampleController 0 (Some 1000) True)) \<and>
   getDetailedAssetTvlApiResponse exampleImports (exampleController 0 (Some 1000) True)
       (ProjectId ''P'') 1 ''B'' CBV =
     (Error INVALID_PROJECT_OR_ASSET, []) \<and>
   ProjectId ''Q'' \<notin> projectId ` set (projects (exampleController 0 (Some 1000) True)) \<and>
   getDetailedAssetTvlApiResponse exampleImports (exampleController 0 (Some 1000) True)
       (ProjectId ''Q'') 1 ''A'' CBV =
     (Error INVALID_PROJECT_OR_ASSET, [])"
proof -
  have a: "''B'' \<notin> id_t ` set (tokens (exampleController 0 (Some 1000) True))"
    by (simp add: exampleController_def)
  have p: "ProjectId ''Q'' \<notin> projectId ` set (projects (exampleController 0 (Some 1000) True))"
    by (simp add: exampleController_def)
  show ?thesis
    using a p invalid_project_or_asset_before_storage [OF disjI1, OF a]
      invalid_project_or_asset_before_storage [OF disjI2, OF p]
    by simp
qed

text \<open>
  Claim C9. In all three operations the check for \<^verbatim>\<open>NO_DATA\<close> comes before the sync
  check: whenever the timings have no latest timestamp the result is \<^verbatim>\<open>NO_DATA\<close>,
  also when the data is unsynced and \<^verbatim>\<open>errorOnUnsyncedDetailedTvl\<close> is true, and
  \<^verbatim>\<open>DATA_NOT_FULLY_SYNCED\<close> is only returned when a latest timestamp exists.
  \<^verbatim>\<open>getDetailedAssetTvlApiResponse\<close> reads the timings only after it has found the
  asset and the project, so its \<^verbatim>\<open>NO_DATA\<close> is stated for a known asset and project.
\<close>

theorem no_data_before_sync_check:
  "(latestTimestamp (fst (getDataTimings c)) = None \<longrightarrow>
      fst (getDetailedTvlApiResponse imp c) = Error NO_DATA \<and>
      fst (getProjectTokenBreakdownApiResponse imp c) = Error NO_DATA \<and>
      (assetId \<in> id_t ` set (tokens c) \<and> pid \<in> projectId ` set (projects c) \<longrightarrow>
         fst (getDetailedAssetTvlApiResponse imp c pid chainId assetId assetType) =
           Error NO_DATA)) \<and>
   (fst (getDetailedTvlApiResponse imp c) = Error DATA_NOT_FULLY_SYNCED \<longrightarrow>
      latestTimestamp (fst (getDataTimings c)) \<noteq> None) \<and>
   (fst (getProjectTokenBreakdownApiResponse imp c) = Error DATA_NOT_FULLY_SYNCED \<longrightarrow>
      latestTimestamp (fst (getDataTimings c)) \<noteq> None) \<and>
   (fst (getDetailedAssetTvlApiResponse imp c pid chainId assetId assetType) =
      Error DATA_NOT_FULLY_SYNCED \<longrightarrow>
      latestTimestamp (fst (getDataTimings c)) \<noteq> None)"
proof (intro conjI impI)
  assume none: "latestTimestamp (fst (getDataTimings c)) = None"
  show "fst (getDetailedTvlApiResponse imp c) = Error NO_DATA"
    using none by (rule tvl_no_data)
  show "fst (getProjectTokenBreakdownApiResponse imp c) = Error NO_DATA"
    using none by (rule breakdown_no_data)
  assume "assetId \<in> id_t ` set (tokens c) \<and> pid \<in> projectId ` set (projects c)"
  then show "fst (getDetailedAssetTvlApiResponse imp c pid chainId assetId assetType) =
      Error NO_DATA"
    using none asset_no_data by blast
next
  assume "fst (getDetailedTvlApiResponse imp c) = Error DATA_NOT_FULLY_SYNCED"
  then show "latestTimestamp (fst (getDataTimings c)) \<noteq> None"
    by (rule tvl_unsynced_has_latest)
next
  assume "fst (getProjectTokenBreakdownApiResponse imp c) = Error DATA_NOT_FULLY_SYNCED"
  then show "latestTimestamp (fst (getDataTimings c)) \<noteq> None"
    by (rule breakdown_unsynced_has_latest)
next
  assume "fst (getDetailedAssetTvlApiResponse imp c pid chainId assetId assetType) =
      Error DATA_NOT_FULLY_SYNCED"
  then show "latestTimestamp (fst (getDataTimings c)) \<noteq> None"
    by (rule asset_unsynced_has_latest)
qed

theorem no_data_before_sync_check_witness:
  "latestTimestamp (fst (getDataTimings (exampleController 2 None True))) = None \<and>
   \<not> isSynced (fst (getDataTimings (exampleController 2 None True))) \<and>
   errorOnUnsyncedDetailedTvl (options (exampleController 2 None True)) \<and>
   ''A'' \<in> id_t ` set (tokens (exampleController 2 None True)) \<and>
   ProjectId ''P'' \<in> projectId ` set (projects (exampleController 2 None True)) \<and>
   fst (getDetailedTvlApiResponse exampleImports (exampleController 2 None True)) =
     Error NO_DATA \<and>
   fst (getProjectTokenBreakdownApiResponse exampleImports (exampleController 2 None True)) =
     Error NO_DATA \<and>
   fst (getDetailedAssetTvlApiResponse exampleImports (exampleController 2 None True)
          (ProjectId ''P'') 1 ''A'' CBV) =
     Error NO_DATA \<and>
   fst (getDetailedTvlApiResponse exampleImports (exampleController 2 (Some 1000) True)) =
     Error DATA_NOT_FULLY_SYNCED \<and>
   latestTimestamp (fst (getDataTimings (exampleController 2 (Some 1000) True))) \<noteq> None"
proof -
  have n: "latestTimestamp (fst (getDataTimings (exampleController 2 None True))) = None"
    by (simp add: getDataTimings_def exampleController_def exampleStorage_def)
  have s: "\<not> isSynced (fst (getDataTimings (exampleController 2 None True)))"
    by (simp add: getDataTimings_def exampleController_def exampleStorage_def)
  have f: "errorOnUnsyncedDetailedTvl (options (exampleController 2 None True))"
    by (simp add: exampleController_def)
  have a: "''A'' \<in> id_t ` set (tokens (exampleController 2 None True))"
    by (simp add: exampleController_def)
  have p: "ProjectId ''P'' \<in> projectId ` set (projects (exampleController 2 None True))"
    by (simp add: exampleController_def)
  have u: "fst (getDetailedTvlApiResponse exampleImports (exampleController 2 (Some 1000) True)) =
      Error DATA_NOT_FULLY_SYNCED"
    by (simp add: getDetailedTvlApiResponse_def getDataTimings_def exampleController_def
          exampleStorage_def)
  show ?thesis
    using no_data_before_sync_check [of "exampleController 2 None True" exampleImports
        "''A''" "ProjectId ''P''" 1 CBV]
      no_data_before_sync_check [of "exampleController 2 (Some 1000) True" exampleImports
        "''A''" "ProjectId ''P''" 1 CBV]
    by (simp add: n s f a p u)
qed

text \<open>
  Claim C10. \<^verbatim>\<open>getDetailedAssetTvlApiResponse\<close> checks the asset against the known
  tokens and the project against the configured projects, and nothing else: for every
  chain id and every asset type, a request for a known asset and project is not
  rejected as invalid and goes on to the storage, first with the two status queries
  and, when the data is served, with the three report queries, which receive the chain
  id and the asset type as they were given.
\<close>

theorem asset_request_checks_only_ids:
  assumes "assetId \<in> id_t ` set (tokens c)" and "pid \<in> projectId ` set (projects c)"
  shows "fst (getDetailedAssetTvlApiResponse imp c pid chainId assetId assetType) \<noteq>
           Error INVALID_PROJECT_OR_ASSET \<and>
         take 2 (snd (getDetailedAssetTvlApiResponse imp c pid chainId assetId assetType)) =
           [FindCountsForHash (aggregatedConfigHash c), FindLatestTimestamp] \<and>
         (\<forall>latest.
            latestTimestamp (fst (getDataTimings c)) = Some latest \<and>
            (isSynced (fst (getDataTimings c)) \<or> \<not> errorOnUnsyncedDetailedTvl (options c))
            \<longrightarrow>
            (\<exists>d. getDetailedAssetTvlApiResponse imp c pid chainId assetId assetType =
               (Success d,
                [FindCountsForHash (aggregatedConfigHash c), FindLatestTimestamp,
                 GetHourlyForDetailed pid chainId assetId assetType
                   (getHourlyMinTimestamp imp latest),
                 GetSixHourlyForDetailed pid chainId assetId assetType
                   (getSixHourlyMinTimestamp imp latest),
                 GetDailyForDetailed pid chainId assetId assetType])))"
  using asset_not_invalid [OF assms] asset_calls_prefix [OF assms] asset_success [OF assms]
  by blast

theorem asset_request_checks_only_ids_witness:
  "''A'' \<in> id_t ` set (tokens (exampleController 0 (Some 1000) True)) \<and>
   ProjectId ''P'' \<in> projectId ` set (projects (exampleController 0 (Some 1000) True)) \<and>
   fst (getDetailedAssetTvlApiResponse exampleImports (exampleController 0 (Some 1000) True)
          (ProjectId ''P'') (- 7) ''A'' NMV) \<noteq>
     Error INVALID_PROJECT_OR_ASSET \<and>
   snd (getDetailedAssetTvlApiResponse exampleImports (exampleController 0 (Some 1000) True)
          (ProjectId ''P'') (- 7) ''A'' NMV) =
     [FindCountsForHash ''h'', FindLatestTimestamp,
      GetHourlyForDetailed (ProjectId ''P'') (- 7) ''A'' NMV 998,
      GetSixHourlyForDetailed (ProjectId ''P'') (- 7) ''A'' NMV 988,
      GetDailyForDetailed (ProjectId ''P'') (- 7) ''A'' NMV]"
proof -
  have a: "''A'' \<in> id_t ` set (tokens (exampleController 0 (Some 1000) True))"
    by (simp add: exampleController_def)
  have p: "ProjectId ''P'' \<in> projectId ` set (projects (exampleController 0 (Some 1000) True))"
    by (simp add: exampleController_def)
  have l: "latestTimestamp (fst (getDataTimings (exampleController 0 (Some 1000) True))) =
      Some 1000"
    by (simp add: getDataTimings_def exampleController_def exampleStorage_def)
  have s: "isSynced (fst (getDataTimings (exampleController 0 (Some 1000) True)))"
    by (simp add: getDataTimings_def exampleController_def exampleStorage_def)
  have h: "aggregatedConfigHash (exampleController 0 (Some 1000) True) = ''h''"
    by (simp add: exampleController_def)
  have m: "getHourlyMinTimestamp exampleImports 1000 = 998"
    "getSixHourlyMinTimestamp exampleImports 1000 = 988"
    by (simp_all add: exampleImports_def)
  from asset_request_checks_only_ids [OF a p, of exampleImports "- 7" NMV] l s
  have "fst (getDetailedAssetTvlApiResponse exampleImports (exampleController 0 (Some 1000) True)
          (ProjectId ''P'') (- 7) ''A'' NMV) \<noteq> Error INVALID_PROJECT_OR_ASSET"
    and "\<exists>d. getDetailedAssetTvlApiResponse exampleImports
          (exampleController 0 (Some 1000) True) (ProjectId ''P'') (- 7) ''A'' NMV =
       (Success d,
        [FindCountsForHash ''h'', FindLatestTimestamp,
         GetHourlyForDetailed (ProjectId ''P'') (- 7) ''A'' NMV 998,
         GetSixHourlyForDetailed (ProjectId ''P'') (- 7) ''A'' NMV 988,
         GetDailyForDetailed (ProjectId ''P'') (- 7) ''A'' NMV])"
    by (simp_all add: h m)
  with a p show ?thesis by auto
qed

section \<open>The filled series\<close>

lemma fillAllMissingAggregatedReports_series:
  "filledHourlyReports (fillAllMissingAggregatedReports imp ids reports latest) =
     concat (map (\<lambda>k. filledSeries imp Hourly (hourly reports) k latest) ids) \<and>
   filledSixHourlyReports (fillAllMissingAggregatedReports imp ids reports latest) =
     concat (map (\<lambda>k. filledSeries imp SixHourly (sixHourly reports) k latest) ids) \<and>
   filledDailyReports (fillAllMissingAggregatedReports imp ids reports latest) =
     concat (map (\<lambda>k. filledSeries imp Daily (daily reports) k latest) ids)"
  by (simp add: fillAllMissingAggregatedReports_def fillMissingAggregatedReports_def)

lemma filledSeries_key: "e \<in> set (filledSeries imp R rows k latest) \<Longrightarrow> filledProjectId e = k"
  by (auto simp: filledSeries_def fillSeries_def fillSlot_eq)

text \<open>
  The flat list that the filler returns holds, for each requested key, exactly the
  filled series of that key (the keys being distinct).
\<close>

lemma fillMissingAggregatedReports_of_key:
  assumes "distinct ids" and "k \<in> set ids"
  shows "filter (\<lambda>e. filledProjectId e = k) (fillMissingAggregatedReports imp R ids rows latest) =
           filledSeries imp R rows k latest"
  using assms
proof (induction ids)
  case Nil
  then show ?case by simp
next
  case (Cons k' ids)
  have own: "filter (\<lambda>e. filledProjectId e = k) (filledSeries imp R rows k latest) =
      filledSeries imp R rows k latest"
    using filledSeries_key by (simp add: filter_id_conv)
  have other: "\<And>j. j \<noteq> k \<Longrightarrow>
      filter (\<lambda>e. filledProjectId e = k) (filledSeries imp R rows j latest) = []"
    using filledSeries_key by (fastforce simp: filter_empty_conv)
  have rest: "k \<notin> set ids \<Longrightarrow>
      filter (\<lambda>e. filledProjectId e = k) (fillMissingAggregatedReports imp R ids rows latest) = []"
    using filledSeries_key
    by (fastforce simp: fillMissingAggregatedReports_def filter_empty_conv)
  show ?case
  proof (cases "k' = k")
    case True
    with Cons.prems have "k \<notin> set ids" by simp
    with True own rest show ?thesis by (simp add: fillMissingAggregatedReports_def)
  next
    case False
    with Cons have "filter (\<lambda>e. filledProjectId e = k)
        (fillMissingAggregatedReports imp R ids rows latest) = filledSeries imp R rows k latest"
      by simp
    with False other [of k'] show ?thesis by (simp add: fillMissingAggregatedReports_def)
  qed
qed



section \<open>The deduplicated latest snapshot\<close>

text \<open>
  Claim C4. The value-type deduplication reduces a list of reports, by summation, to one
  pair of asset amount and usd value, and the pair is the same for every permutation
  of the list. Through the grouping of the latest reports: every project has at most one
  entry per asset, the entry of a project and an asset is the same for every permutation
  of the rows, and rows that share one project and one asset (and differ in value
  type) yield the single entry that carries their sums, as 30 usd of type CBV and 20 usd
  of type EBV yield 50 usd.
\<close>

theorem dedupe_order_independent:
  assumes "mset rows' = mset rows"
  shows "dedupe rows' = dedupe rows \<and>
         dedupe rows = (sum_list (map valueAsset rows), sum_list (map valueUsd rows)) \<and>
         distinct (map fst (getProjectTokensCharts (groupByProjectIdAndAssetType rows') p)) \<and>
         map_of (getProjectTokensCharts (groupByProjectIdAndAssetType rows') p) a =
           map_of (getProjectTokensCharts (groupByProjectIdAndAssetType rows) p) a \<and>
         (rows \<noteq> [] \<and> (\<forall>r \<in> set rows. reportProjectId r = p \<and> reportAssetId r = a) \<longrightarrow>
            getProjectTokensCharts (groupByProjectIdAndAssetType rows') p =
              [(a, sum_list (map valueAsset rows), sum_list (map valueUsd rows))])"
proof -
  have s: "set rows' = set rows" using assms by (rule mset_eq_setD)
  have f: "mset (filter (\<lambda>r. reportProjectId r = p \<and> reportAssetId r = a) rows') =
           mset (filter (\<lambda>r. reportProjectId r = p \<and> reportAssetId r = a) rows)"
    using assms by (simp only: mset_filter)
  have m: "map_of (getProjectTokensCharts (groupByProjectIdAndAssetType rows') p) a =
           map_of (getProjectTokensCharts (groupByProjectIdAndAssetType rows) p) a"
    by (simp only: tokens_map_of s dedupe_mset [OF f])
  have single: "rows \<noteq> [] \<and> (\<forall>r \<in> set rows. reportProjectId r = p \<and> reportAssetId r = a) \<longrightarrow>
            getProjectTokensCharts (groupByProjectIdAndAssetType rows') p =
              [(a, sum_list (map valueAsset rows), sum_list (map valueUsd rows))]"
  proof
    assume h: "rows \<noteq> [] \<and> (\<forall>r \<in> set rows. reportProjectId r = p \<and> reportAssetId r = a)"
    then have "rows' \<noteq> []" using s by auto
    moreover from h s have "\<forall>r \<in> set rows'. reportProjectId r = p \<and> reportAssetId r = a"
      by simp
    ultimately have "getProjectTokensCharts (groupByProjectIdAndAssetType rows') p =
        [(a, dedupe rows')]" by (rule tokens_single)
    then show "getProjectTokensCharts (groupByProjectIdAndAssetType rows') p =
              [(a, sum_list (map valueAsset rows), sum_list (map valueUsd rows))]"
      by (simp only: dedupe_mset [OF assms]) (simp add: dedupe_sums)
  qed
  from dedupe_mset [OF assms] dedupe_sums [of rows] tokens_distinct [of rows' p] m single
  show ?thesis by blast
qed

theorem dedupe_order_independent_witness:
  "mset [exampleEBV, exampleCBV] = mset [exampleCBV, exampleEBV] \<and>
   [exampleCBV, exampleEBV] \<noteq> [] \<and>
   reportProjectId exampleCBV = ProjectId ''P'' \<and> reportAssetId exampleCBV = ''A'' \<and>
   reportProjectId exampleEBV = ProjectId ''P'' \<and> reportAssetId exampleEBV = ''A'' \<and>
   reportValueType exampleCBV = CBV \<and> valueUsd exampleCBV = 30 \<and>
   reportValueType exampleEBV = EBV \<and> valueUsd exampleEBV = 20 \<and>
   dedupe [exampleEBV, exampleCBV] = (5, 50) \<and>
   getProjectTokensCharts (groupByProjectIdAndAssetType [exampleEBV, exampleCBV])
       (ProjectId ''P'') =
     [(''A'', 5, 50)]"
proof -
  have perm: "mset [exampleEBV, exampleCBV] = mset [exampleCBV, exampleEBV]"
    by (simp add: add.commute)
  have same: "[exampleCBV, exampleEBV] \<noteq> [] \<and>
      (\<forall>r \<in> set [exampleCBV, exampleEBV].
         reportProjectId r = ProjectId ''P'' \<and> reportAssetId r = ''A'')"
    by (simp add: exampleCBV_def exampleEBV_def)
  have sums: "sum_list (map valueAsset [exampleCBV, exampleEBV]) = 5"
    "sum_list (map valueUsd [exampleCBV, exampleEBV]) = 50"
    by (simp_all add: exampleCBV_def exampleEBV_def)
  from dedupe_order_independent [OF perm, of "ProjectId ''P''" "''A''"] same
  have "dedupe [exampleEBV, exampleCBV] = dedupe [exampleCBV, exampleEBV]"
    and "dedupe [exampleCBV, exampleEBV] =
      (sum_list (map valueAsset [exampleCBV, exampleEBV]),
       sum_list (map valueUsd [exampleCBV, exampleEBV]))"
    and "getProjectTokensCharts (groupByProjectIdAndAssetType [exampleEBV, exampleCBV])
       (ProjectId ''P'') =
     [(''A'', sum_list (map valueAsset [exampleCBV, exampleEBV]),
       sum_list (map valueUsd [exampleCBV, exampleEBV]))]"
    by blast+
  then have "dedupe [exampleEBV, exampleCBV] = (5, 50)"
    and "getProjectTokensCharts (groupByProjectIdAndAssetType [exampleEBV, exampleCBV])
       (ProjectId ''P'') = [(''A'', 5, 50)]"
    by (simp_all only: sums)
  with perm show ?thesis by (simp add: exampleCBV_def exampleEBV_def)
qed

section \<open>The merged breakdowns\<close>

text \<open>
  Claim C7. For every project list and every triple of category breakdowns, the merged
  output has exactly one entry for every project of the list and no entry for any
  other project; the entry of a project holds, for each category, the project's entries
  in that category and the empty list where the category has none. So a project present
  in one category only has that category populated and the other two empty, and a
  project present in no category has three empty lists.
\<close>

theorem groupAndMergeBreakdowns_projects:
  "distinct (map fst (groupAndMergeBreakdowns ps bs)) \<and>
   fst ` set (groupAndMergeBreakdowns ps bs) = projectId ` set ps \<and>
   (\<forall>p \<in> projectId ` set ps.
      map_of (groupAndMergeBreakdowns ps bs) p =
        Some \<lparr>external = (case external bs p of None \<Rightarrow> [] | Some es \<Rightarrow> es),
              native = (case native bs p of None \<Rightarrow> [] | Some es \<Rightarrow> es),
              canonical = (case canonical bs p of None \<Rightarrow> [] | Some es \<Rightarrow> es)\<rparr>)"
proof -
  have d: "distinct (map fst (groupAndMergeBreakdowns ps bs))"
    unfolding groupAndMergeBreakdowns_def
    using foldl_update_distinct [where k = projectId and ?acc0.0 = "[]"] by simp
  have k: "fst ` set (groupAndMergeBreakdowns ps bs) = projectId ` set ps"
    unfolding groupAndMergeBreakdowns_def
    using foldl_update_keys [where k = projectId and ?acc0.0 = "[]"] by simp
  have m: "\<forall>p \<in> projectId ` set ps.
      map_of (groupAndMergeBreakdowns ps bs) p =
        Some \<lparr>external = entriesOf (external bs) p,
              native = entriesOf (native bs) p,
              canonical = entriesOf (canonical bs) p\<rparr>"
    unfolding groupAndMergeBreakdowns_def
    using foldl_update_map_of [where k = projectId and ?acc0.0 = "[]" and ps = ps and
        g = "\<lambda>p. \<lparr>external = entriesOf (external bs) p,
              native = entriesOf (native bs) p,
              canonical = entriesOf (canonical bs) p\<rparr>"]
    by simp
  from d k m show ?thesis by (simp only: entriesOf_def)
qed

theorem groupAndMergeBreakdowns_projects_witness:
  "ProjectId ''P'' \<in> projectId ` set exampleProjects \<and>
   ProjectId ''Q'' \<in> projectId ` set exampleProjects \<and>
   native exampleBreakdowns (ProjectId ''P'') = Some [exampleEntry] \<and>
   external exampleBreakdowns (ProjectId ''P'') = None \<and>
   canonical exampleBreakdowns (ProjectId ''P'') = None \<and>
   map_of (groupAndMergeBreakdowns exampleProjects exampleBreakdowns) (ProjectId ''P'') =
     Some \<lparr>external = [], native = [exampleEntry], canonical = []\<rparr> \<and>
   map_of (groupAndMergeBreakdowns exampleProjects exampleBreakdowns) (ProjectId ''Q'') =
     Some \<lparr>external = [], native = [], canonical = []\<rparr> \<and>
   map fst (groupAndMergeBreakdowns exampleProjects exampleBreakdowns) =
     [ProjectId ''P'', ProjectId ''Q'']"
proof -
  have p: "ProjectId ''P'' \<in> projectId ` set exampleProjects"
    and q: "ProjectId ''Q'' \<in> projectId ` set exampleProjects"
    by (simp_all add: exampleProjects_def)
  have b: "native exampleBreakdowns (ProjectId ''P'') = Some [exampleEntry]"
    "external exampleBreakdowns (ProjectId ''P'') = None"
    "canonical exampleBreakdowns (ProjectId ''P'') = None"
    "native exampleBreakdowns (ProjectId ''Q'') = None"
    "external exampleBreakdowns (ProjectId ''Q'') = None"
    "canonical exampleBreakdowns (ProjectId ''Q'') = None"
    by (simp_all add: exampleBreakdowns_def)
  from groupAndMergeBreakdowns_projects [of exampleProjects exampleBreakdowns]
  have all: "\<forall>p \<in> projectId ` set exampleProjects.
      map_of (groupAndMergeBreakdowns exampleProjects exampleBreakdowns) p =
        Some \<lparr>external = (case external exampleBreakdowns p of None \<Rightarrow> [] | Some es \<Rightarrow> es),
              native = (case native exampleBreakdowns p of None \<Rightarrow> [] | Some es \<Rightarrow> es),
              canonical = (case canonical exampleBreakdowns p of None \<Rightarrow> [] | Some es \<Rightarrow> es)\<rparr>"
    by blast
  have mp: "map_of (groupAndMergeBreakdowns exampleProjects exampleBreakdowns) (ProjectId ''P'') =
     Some \<lparr>external = [], native = [exampleEntry], canonical = []\<rparr>"
    using bspec [OF all p] by (simp add: b)
  have mq: "map_of (groupAndMergeBreakdowns exampleProjects exampleBreakdowns) (ProjectId ''Q'') =
     Some \<lparr>external = [], native = [], canonical = []\<rparr>"
    using bspec [OF all q] by (simp add: b)
  have ks: "map fst (groupAndMergeBreakdowns exampleProjects exampleBreakdowns) =
     [ProjectId ''P'', ProjectId ''Q'']"
    by code_simp
  from p q b mp mq ks show ?thesis by (intro conjI)
qed

section \<open>The projects of the detailed response\<close>

text \<open>
  Claim C8. For every grouped input, the response of
  \<^verbatim>\<open>generateDetailedTvlApiResponse\<close> has an entry for exactly the project ids it is
  given, one entry each; a project outside that list is never in the response, whatever
  the grouped rows mention. The controller seeks the rollup ids next to the configured
  project ids when it fills the series, but passes the configured ids alone to the
  generator: a successful response of \<^verbatim>\<open>getDetailedTvlApiResponse\<close> has entries for
  the configured projects and for no other id.
\<close>

theorem generate_only_given_projects:
  "fst ` set (generateDetailedTvlApiResponse gh gs gd gl projectIds) = set projectIds \<and>
   distinct (map fst (generateDetailedTvlApiResponse gh gs gd gl projectIds)) \<and>
   (\<forall>resp calls. getDetailedTvlApiResponse imp c = (Success resp, calls) \<longrightarrow>
      fst ` set resp = projectId ` set (projects c))"
proof -
  have keys: "\<And>gh gs gd gl ids.
      fst ` set (generateDetailedTvlApiResponse gh gs gd gl ids) = set ids"
    unfolding generateDetailedTvlApiResponse_def
    using foldl_update_keys [where k = "\<lambda>p. p" and ?acc0.0 = "[]"] by simp
  have dist: "distinct (map fst (generateDetailedTvlApiResponse gh gs gd gl projectIds))"
    unfolding generateDetailedTvlApiResponse_def
    using foldl_update_distinct [where k = "\<lambda>p. p" and ?acc0.0 = "[]"] by simp
  have ctl: "\<forall>resp calls. getDetailedTvlApiResponse imp c = (Success resp, calls) \<longrightarrow>
      fst ` set resp = projectId ` set (projects c)"
    by (auto simp: getDetailedTvlApiResponse_def Let_def case_prod_beta keys
             split: option.splits if_splits)
  from keys dist ctl show ?thesis by blast
qed

theorem generate_only_given_projects_witness:
  "fst (getDetailedTvlApiResponse exampleImports (exampleController 0 (Some 1000) True)) =
     Success exampleResponse \<and>
   fst ` set exampleResponse =
     projectId ` set (projects (exampleController 0 (Some 1000) True)) \<and>
   getHourlyWithAnyType (storage (exampleController 0 (Some 1000) True)) 998 = exampleRows \<and>
   ProjectId ''Q'' \<in> aggProjectId ` set exampleRows \<and>
   ProjectId_ALL \<in> aggProjectId ` set exampleRows \<and>
   ProjectId ''Q'' \<notin> fst ` set exampleResponse \<and>
   ProjectId_ALL \<notin> fst ` set exampleResponse"
proof -
  have r: "fst (getDetailedTvlApiResponse exampleImports
      (exampleController 0 (Some 1000) True)) = Success exampleResponse"
    by code_simp
  then obtain calls where e: "getDetailedTvlApiResponse exampleImports
      (exampleController 0 (Some 1000) True) = (Success exampleResponse, calls)"
    by (cases "getDetailedTvlApiResponse exampleImports (exampleController 0 (Some 1000) True)")
       simp
  from generate_only_given_projects [of _ _ _ _ _ exampleImports
      "exampleController 0 (Some 1000) True"] e
  have k: "fst ` set exampleResponse =
      projectId ` set (projects (exampleController 0 (Some 1000) True))"
    by blast
  have rows: "getHourlyWithAnyType (storage (exampleController 0 (Some 1000) True)) 998 =
      exampleRows"
    by (simp add: exampleController_def exampleStorage_def)
  have q: "ProjectId ''Q'' \<in> aggProjectId ` set exampleRows"
    and a: "ProjectId_ALL \<in> aggProjectId ` set exampleRows"
    by (simp_all add: exampleRows_def)
  have nq: "ProjectId ''Q'' \<notin> fst ` set exampleResponse"
    and na: "ProjectId_ALL \<notin> fst ` set exampleResponse"
    by (simp_all add: exampleResponse_def)
  from r k rows q a nq na show ?thesis by (intro conjI)
qed

end
